theory Spec2Isabelle
  imports Complex_Main "HOL-Library.Multiset"
begin

section \<open>Values, errors and loops\<close>

text \<open>
  The engine (\<open>backend/geotiff_engine.py\<close>) and the server (\<open>backend/server.py\<close>) are
  embedded function by function. A coordinate or a distance is the real number it
  denotes (\<open>real\<close>). The radii of the circle query, which are sorted as they are given
  and printed in the labels, and the numbers of a request are \<open>pynum\<close> values: an int, a
  float, or the float \<open>-0.0\<close>; \<open>5\<close> and \<open>5.0\<close>, and the two zeros, compare equal and
  are different values. A statistic value, which may be not-a-number, is a \<open>pyfloat\<close>.
  Rounding and infinities are outside the model, and so is not-a-number as a radius or
  an edge: with it \<open><\<close> is no ordering and what \<open>sorted\<close> returns depends on the sorting
  algorithm.

  An exception is a value of type \<open>error\<close>; a function that may raise returns
  \<open>error + 'a\<close>, with \<open>Inl\<close> the exception.
\<close>

datatype error =
    IndexError
  | KeyError string
  | ValueError string
  | TypeError
  | LibraryError string

datatype pyfloat = Fin real | NaN

datatype pynum = PyInt int | PyFloat real | PyNegZero

text \<open>The value of a number, by which \<open>==\<close> and \<open><\<close> compare.\<close>

fun num_value :: "pynum \<Rightarrow> real" where
  "num_value (PyInt i) = real_of_int i"
| "num_value (PyFloat r) = r"
| "num_value PyNegZero = 0"

text \<open>A parsed JSON value; a JSON object is the list of its items.\<close>

datatype json =
    JNull
  | JBool bool
  | JNum pynum
  | JStr string
  | JArr "json list"
  | JObj "(string \<times> json) list"

text \<open>
  \<open>for x in xs: results.append(body(x))\<close>, and a list comprehension \<open>[body(x) for x in xs]\<close>:
  the first exception ends the loop.
\<close>

fun for_each :: "('a \<Rightarrow> error + 'b) \<Rightarrow> 'a list \<Rightarrow> error + 'b list" where
  "for_each body [] = Inr []"
| "for_each body (x # xs) =
     (case body x of
        Inl e \<Rightarrow> Inl e
      | Inr y \<Rightarrow> (case for_each body xs of Inl e \<Rightarrow> Inl e | Inr ys \<Rightarrow> Inr (y # ys)))"

section \<open>Data model\<close>

type_synonym coord = "real \<times> real"
type_synonym ring = "coord list"

text \<open>
  A shapely \<open>Polygon\<close>: the exterior ring and the interior rings (holes). The
  constructor \<open>Polygon(shell)\<close> raises ValueError for a ring of fewer than four
  coordinates and keeps the coordinates of a longer one; every ring the engine passes to
  it is closed already.
\<close>

record polygon =
  exterior :: ring
  interiors :: "ring list"

definition Polygon :: "ring \<Rightarrow> error + polygon" where
  "Polygon shell =
     (if length shell < 4
      then Inl (ValueError ''A linearring requires at least 4 coordinates.'')
      else Inr \<lparr>exterior = shell, interiors = []\<rparr>)"

text \<open>A ring is closed when its first and its last coordinate pair are the same.\<close>

definition ring_closed :: "ring \<Rightarrow> bool" where
  "ring_closed r = (r \<noteq> [] \<and> hd r = last r)"

record crs_obj =
  crs_name :: string
  is_geographic :: bool

record bounding_box =
  b_left :: real
  b_bottom :: real
  b_right :: real
  b_top :: real

text \<open>An open rasterio dataset \<open>ds\<close>; \<open>ds.crs\<close> may be missing.\<close>

record dataset =
  ds_crs :: "crs_obj option"
  ds_bounds :: bounding_box
  ds_width :: int
  ds_height :: int
  ds_res :: "real \<times> real"
  ds_count :: int
  ds_nodata :: "real option"

record RasterInfo =
  path :: string
  crs :: string
  width :: int
  height :: int
  res_x :: real
  res_y :: real
  bands :: int
  nodata :: "real option"
  bounds :: "(string \<times> real) list"
  bounds_polygon :: ring

record 'g QueryResult =
  label :: string
  geometry_geojson :: 'g
  stats :: "string \<rightharpoonup> pyfloat"

definition WGS84 :: string where
  "WGS84 = ''EPSG:4326''"

definition CIRCLE_PTS :: nat where
  "CIRCLE_PTS = 360"

section \<open>The libraries the engine calls\<close>

text \<open>
  pyproj, shapely, rasterio, numpy and exactextract are not part of the repository. Each
  library call of the source is a field of the record below, so every result about the
  engine holds for whatever these calls compute; a call that may raise returns
  \<open>error + 'a\<close>. \<open>'g\<close> is the GeoJSON structure \<open>mapping\<close> builds, \<open>'arr\<close> the masked
  pixel array of numpy. \<open>has_exact\<close> is the module flag \<open>HAS_EXACT\<close>, set at import time
  by whether exactextract can be imported. \<open>index0\<close> is the indexing \<open>arr[0]\<close> of an
  array. \<open>float_str\<close>, \<open>int_str\<close>, \<open>float_of_str\<close> and \<open>int_of_str\<close> are Python's
  own conversions between floats, integers and text, and \<open>json_text\<close> is the text of a
  JSON value that is not a string.
\<close>

record ('g, 'arr) library =
  has_exact :: bool
  geod_fwd :: "real \<Rightarrow> real \<Rightarrow> real \<Rightarrow> real \<Rightarrow> error + coord"
  shp_difference :: "polygon \<Rightarrow> polygon \<Rightarrow> error + polygon"
  shp_box :: "real \<Rightarrow> real \<Rightarrow> real \<Rightarrow> real \<Rightarrow> polygon"
  shp_mapping :: "polygon \<Rightarrow> 'g"
  float_str :: "real \<Rightarrow> string"
  int_str :: "int \<Rightarrow> string"
  json_text :: "json \<Rightarrow> string"
  float_of_str :: "string \<Rightarrow> pynum option"
  int_of_str :: "string \<Rightarrow> int option"
  exact_extract :: "string \<Rightarrow> polygon \<Rightarrow> string list \<Rightarrow> error + (string \<rightharpoonup> pyfloat)"
  rasterio_open :: "string \<Rightarrow> error + dataset"
  proj_transform :: "string \<Rightarrow> string \<Rightarrow> coord \<Rightarrow> error + coord"
  rio_mask :: "dataset \<Rightarrow> polygon \<Rightarrow> int \<Rightarrow> error + 'arr"
  index0 :: "'arr \<Rightarrow> error + 'arr"
  masked_where_eq :: "'arr \<Rightarrow> real \<Rightarrow> 'arr"
  ma_sum :: "'arr \<Rightarrow> error + pyfloat"
  ma_mean :: "'arr \<Rightarrow> error + pyfloat"
  ma_max :: "'arr \<Rightarrow> error + pyfloat"
  ma_min :: "'arr \<Rightarrow> error + pyfloat"
  ma_count :: "'arr \<Rightarrow> error + pyfloat"
  ma_std :: "'arr \<Rightarrow> error + pyfloat"
  ma_median :: "'arr \<Rightarrow> error + pyfloat"

text \<open>
  The array forms of \<open>Geod.fwd\<close> and \<open>Transformer.transform\<close> work element by element
  and return one array per coordinate.
\<close>

definition geod_fwd_arrays ::
  "('g, 'arr) library \<Rightarrow> real list \<Rightarrow> real list \<Rightarrow> real list \<Rightarrow> real list
     \<Rightarrow> error + (real list \<times> real list)" where
  "geod_fwd_arrays L lons lats azs dists =
     (case for_each (\<lambda>(lo, la, a, d). geod_fwd L lo la a d)
             (zip lons (zip lats (zip azs dists))) of
        Inl e \<Rightarrow> Inl e
      | Inr pts \<Rightarrow> Inr (map fst pts, map snd pts))"

definition transform_arrays ::
  "('g, 'arr) library \<Rightarrow> string \<Rightarrow> string \<Rightarrow> real list \<Rightarrow> real list
     \<Rightarrow> error + (real list \<times> real list)" where
  "transform_arrays L src dst xs ys =
     (case for_each (proj_transform L src dst) (zip xs ys) of
        Inl e \<Rightarrow> Inl e
      | Inr pts \<Rightarrow> Inr (map fst pts, map snd pts))"

section \<open>Geometry builders\<close>

text \<open>\<open>np.linspace(0, 360, n, endpoint=False)\<close>.\<close>

definition linspace_360 :: "nat \<Rightarrow> real list" where
  "linspace_360 n = map (\<lambda>i. real i * (360 / real n)) [0..<n]"

text \<open>
  \<open>geodesic_circle\<close>: \<open>coords[0]\<close> raises IndexError on an empty list, which is what
  \<open>n = 0\<close> gives.
\<close>

definition geodesic_circle ::
  "('g, 'arr) library \<Rightarrow> real \<Rightarrow> real \<Rightarrow> real \<Rightarrow> nat \<Rightarrow> error + polygon" where
  "geodesic_circle L lon lat radius_m n =
     (case geod_fwd_arrays L (replicate n lon) (replicate n lat) (linspace_360 n)
             (replicate n radius_m) of
        Inl e \<Rightarrow> Inl e
      | Inr (lons, lats) \<Rightarrow>
          (let coords = zip lons lats in
           case coords of
             [] \<Rightarrow> Inl IndexError
           | c0 # _ \<Rightarrow> Polygon (coords @ [c0])))"

definition geodesic_annulus ::
  "('g, 'arr) library \<Rightarrow> real \<Rightarrow> real \<Rightarrow> real \<Rightarrow> real \<Rightarrow> nat \<Rightarrow> error + polygon" where
  "geodesic_annulus L lon lat inner_m outer_m n =
     (case geodesic_circle L lon lat outer_m n of
        Inl e \<Rightarrow> Inl e
      | Inr outer \<Rightarrow>
          (case geodesic_circle L lon lat inner_m n of
             Inl e \<Rightarrow> Inl e
           | Inr inner \<Rightarrow> shp_difference L outer inner))"

definition rect_from_center ::
  "('g, 'arr) library \<Rightarrow> real \<Rightarrow> real \<Rightarrow> real \<Rightarrow> real \<Rightarrow> error + polygon" where
  "rect_from_center L lon lat half_w_m half_h_m =
     (case geod_fwd L lon lat 0 half_h_m of
        Inl e \<Rightarrow> Inl e
      | Inr (n_lon, n_lat) \<Rightarrow>
     (case geod_fwd L lon lat 180 half_h_m of
        Inl e \<Rightarrow> Inl e
      | Inr (s_lon, s_lat) \<Rightarrow>
     (case geod_fwd L lon lat 90 half_w_m of
        Inl e \<Rightarrow> Inl e
      | Inr (e_lon, e_lat) \<Rightarrow>
     (case geod_fwd L lon lat 270 half_w_m of
        Inl e \<Rightarrow> Inl e
      | Inr (w_lon, w_lat) \<Rightarrow> Inr (shp_box L w_lon s_lat e_lon n_lat)))))"

section \<open>Zonal statistics\<close>

text \<open>
  The exact path: \<open>{s: float(row[s]) for s in stats}\<close> over the first row of what
  exactextract returns; \<open>row[s]\<close> raises KeyError for a column the row does not have.
\<close>

fun stats_from_row ::
  "(string \<rightharpoonup> pyfloat) \<Rightarrow> (string \<rightharpoonup> pyfloat) \<Rightarrow> string list \<Rightarrow> error + (string \<rightharpoonup> pyfloat)" where
  "stats_from_row row out [] = Inr out"
| "stats_from_row row out (s # ss) =
     (case row s of
        None \<Rightarrow> Inl (KeyError s)
      | Some v \<Rightarrow> stats_from_row row (out(s \<mapsto> v)) ss)"

text \<open>The fallback path: the \<open>if\<close>/\<open>elif\<close> chain over the statistic name.\<close>

definition one_stat :: "('g, 'arr) library \<Rightarrow> 'arr \<Rightarrow> string \<Rightarrow> error + pyfloat" where
  "one_stat L arr s =
     (if s = ''sum'' then ma_sum L arr
      else if s = ''mean'' then ma_mean L arr
      else if s = ''max'' then ma_max L arr
      else if s = ''min'' then ma_min L arr
      else if s = ''count'' then ma_count L arr
      else if s = ''stdev'' then ma_std L arr
      else if s = ''median'' then ma_median L arr
      else Inr NaN)"

fun stats_loop ::
  "('g, 'arr) library \<Rightarrow> 'arr \<Rightarrow> (string \<rightharpoonup> pyfloat) \<Rightarrow> string list
     \<Rightarrow> error + (string \<rightharpoonup> pyfloat)" where
  "stats_loop L arr out [] = Inr out"
| "stats_loop L arr out (s # ss) =
     (case one_stat L arr s of
        Inl e \<Rightarrow> Inl e
      | Inr v \<Rightarrow> stats_loop L arr (out(s \<mapsto> v)) ss)"

text \<open>
  The polygon handed to \<open>rasterio.mask.mask\<close>: for a raster whose CRS is present and not
  geographic, \<open>Polygon(zip(xs, ys))\<close> with \<open>xs, ys\<close> the transformed \<open>geom.exterior.xy\<close>;
  otherwise \<open>geom\<close> itself.
\<close>

definition geom_native :: "('g, 'arr) library \<Rightarrow> dataset \<Rightarrow> polygon \<Rightarrow> error + polygon" where
  "geom_native L ds geom =
     (case ds_crs ds of
        None \<Rightarrow> Inr geom
      | Some c \<Rightarrow>
          if \<not> is_geographic c then
            (case transform_arrays L WGS84 (crs_name c)
                    (map fst (exterior geom)) (map snd (exterior geom)) of
               Inl e \<Rightarrow> Inl e
             | Inr (xs, ys) \<Rightarrow> Polygon (zip xs ys))
          else Inr geom)"

text \<open>
  Lines 181 to 196: what \<open>rasterio.mask.mask\<close> returns for the polygon, indexed by
  \<open>arr[0]\<close>, with the pixels equal to the nodata value masked as well.
\<close>

definition masked_pixels ::
  "('g, 'arr) library \<Rightarrow> string \<Rightarrow> polygon \<Rightarrow> int \<Rightarrow> error + 'arr" where
  "masked_pixels L tif_path geom band =
     (case rasterio_open L tif_path of
        Inl e \<Rightarrow> Inl e
      | Inr ds \<Rightarrow>
     (case geom_native L ds geom of
        Inl e \<Rightarrow> Inl e
      | Inr g \<Rightarrow>
     (case rio_mask L ds g band of
        Inl e \<Rightarrow> Inl e
      | Inr masked \<Rightarrow>
     (case index0 L masked of
        Inl e \<Rightarrow> Inl e
      | Inr arr \<Rightarrow>
          (case ds_nodata ds of
             None \<Rightarrow> Inr arr
           | Some nd \<Rightarrow> Inr (masked_where_eq L arr nd))))))"

text \<open>
  \<open>compute_stats\<close>. The GeoDataFrame built around the polygon is left out: on the exact
  path the polygon and the names go to exactextract and the statistics are read from the
  first row of its answer; otherwise they are computed from the masked pixels.
\<close>

definition compute_stats ::
  "('g, 'arr) library \<Rightarrow> string \<Rightarrow> polygon \<Rightarrow> string list \<Rightarrow> int
     \<Rightarrow> error + (string \<rightharpoonup> pyfloat)" where
  "compute_stats L tif_path geom stat_names band =
     (if has_exact L then
        (case exact_extract L tif_path geom stat_names of
           Inl e \<Rightarrow> Inl e
         | Inr row \<Rightarrow> stats_from_row row Map.empty stat_names)
      else
        (case masked_pixels L tif_path geom band of
           Inl e \<Rightarrow> Inl e
         | Inr arr \<Rightarrow> stats_loop L arr Map.empty stat_names))"

section \<open>Query runners\<close>

text \<open>\<open>f"{r}"\<close> for a number: an int prints without a decimal point, a float with one.\<close>

fun py_str :: "('g, 'arr) library \<Rightarrow> pynum \<Rightarrow> string" where
  "py_str L (PyInt i) = int_str L i"
| "py_str L (PyFloat r) = float_str L r"
| "py_str L PyNegZero = ''-0.0''"

text \<open>
  The body of the loop of \<open>run_circle_query\<close>, for one radius. The radius is printed
  in the label as it is; pyproj gets the value of \<open>r * 1000\<close>.
\<close>

definition circle_result ::
  "('g, 'arr) library \<Rightarrow> string \<Rightarrow> real \<Rightarrow> real \<Rightarrow> string list \<Rightarrow> int \<Rightarrow> pynum
     \<Rightarrow> error + 'g QueryResult" where
  "circle_result L tif_path lon lat stat_names band r =
     (case geodesic_circle L lon lat (num_value r * 1000) CIRCLE_PTS of
        Inl e \<Rightarrow> Inl e
      | Inr circ \<Rightarrow>
          (case compute_stats L tif_path circ stat_names band of
             Inl e \<Rightarrow> Inl e
           | Inr vals \<Rightarrow>
               Inr \<lparr>label = py_str L r @ '' km'',
                    geometry_geojson = shp_mapping L circ,
                    stats = vals\<rparr>))"

text \<open>
  \<open>for r in sorted(radii_km)\<close>: \<open>sorted\<close> is stable, so radii that compare equal keep
  the order they have in the input.
\<close>

definition run_circle_query ::
  "('g, 'arr) library \<Rightarrow> string \<Rightarrow> real \<Rightarrow> real \<Rightarrow> pynum list \<Rightarrow> string list \<Rightarrow> int
     \<Rightarrow> error + 'g QueryResult list" where
  "run_circle_query L tif_path lon lat radii_km stat_names band =
     for_each (circle_result L tif_path lon lat stat_names band)
       (sort_key num_value radii_km)"

text \<open>The en-dash of the band label, as the bytes of its UTF-8 encoding.\<close>

definition en_dash :: string where
  "en_dash = [CHR 0xE2, CHR 0x80, CHR 0x93]"

text \<open>The body of the loop of \<open>run_band_query\<close>, for one index \<open>i\<close>.\<close>

definition band_result ::
  "('g, 'arr) library \<Rightarrow> string \<Rightarrow> real \<Rightarrow> real \<Rightarrow> string list \<Rightarrow> int \<Rightarrow> real list \<Rightarrow> nat
     \<Rightarrow> error + 'g QueryResult" where
  "band_result L tif_path lon lat stat_names band edges i =
     (let inner = edges ! i; outer = edges ! (i + 1) in
      case geodesic_annulus L lon lat (inner * 1000) (outer * 1000) CIRCLE_PTS of
        Inl e \<Rightarrow> Inl e
      | Inr ring \<Rightarrow>
          (case compute_stats L tif_path ring stat_names band of
             Inl e \<Rightarrow> Inl e
           | Inr vals \<Rightarrow>
               Inr \<lparr>label = float_str L inner @ en_dash @ float_str L outer @ '' km'',
                    geometry_geojson = shp_mapping L ring,
                    stats = vals\<rparr>))"

text \<open>
  \<open>edges = sorted(set(edges_km))\<close>, then \<open>for i in range(len(edges) - 1)\<close>; the range
  is empty when \<open>edges\<close> has fewer than two elements.
\<close>

definition run_band_query ::
  "('g, 'arr) library \<Rightarrow> string \<Rightarrow> real \<Rightarrow> real \<Rightarrow> real list \<Rightarrow> string list \<Rightarrow> int
     \<Rightarrow> error + 'g QueryResult list" where
  "run_band_query L tif_path lon lat edges_km stat_names band =
     (let edges = sort (remdups edges_km) in
      for_each (band_result L tif_path lon lat stat_names band edges)
        [0..<length edges - 1])"



text \<open>A comparison point \<open>{name, lat, lon}\<close>.\<close>

record point =
  pt_name :: string
  pt_lat :: real
  pt_lon :: real

text \<open>The body of the loop of \<open>run_compare_query\<close>, for one point.\<close>

definition compare_result ::
  "('g, 'arr) library \<Rightarrow> string \<Rightarrow> real \<Rightarrow> string list \<Rightarrow> int \<Rightarrow> point
     \<Rightarrow> error + 'g QueryResult" where
  "compare_result L tif_path radius_km stat_names band pt =
     (case geodesic_circle L (pt_lon pt) (pt_lat pt) (radius_km * 1000) CIRCLE_PTS of
        Inl e \<Rightarrow> Inl e
      | Inr circ \<Rightarrow>
          (case compute_stats L tif_path circ stat_names band of
             Inl e \<Rightarrow> Inl e
           | Inr vals \<Rightarrow>
               Inr \<lparr>label = pt_name pt,
                    geometry_geojson = shp_mapping L circ,
                    stats = vals(''_lat'' \<mapsto> Fin (pt_lat pt), ''_lon'' \<mapsto> Fin (pt_lon pt))\<rparr>))"

definition run_compare_query ::
  "('g, 'arr) library \<Rightarrow> string \<Rightarrow> point list \<Rightarrow> real \<Rightarrow> string list \<Rightarrow> int
     \<Rightarrow> error + 'g QueryResult list" where
  "run_compare_query L tif_path points radius_km stat_names band =
     for_each (compare_result L tif_path radius_km stat_names band) points"

section \<open>Loading a raster\<close>

text \<open>\<open>min(...)\<close> and \<open>max(...)\<close> over a generator raise ValueError when it is empty.\<close>

fun py_min :: "real list \<Rightarrow> error + real" where
  "py_min [] = Inl (ValueError ''min() arg is an empty sequence'')"
| "py_min (x # xs) = Inr (fold min xs x)"

fun py_max :: "real list \<Rightarrow> error + real" where
  "py_max [] = Inl (ValueError ''max() arg is an empty sequence'')"
| "py_max (x # xs) = Inr (fold max xs x)"

definition and_then :: "error + 'a \<Rightarrow> ('a \<Rightarrow> error + 'b) \<Rightarrow> error + 'b" where
  "and_then r f = (case r of Inl e \<Rightarrow> Inl e | Inr x \<Rightarrow> f x)"

text \<open>The four corners of the raster in WGS84, as \<open>RasterStore.load\<close> computes them.\<close>

definition load_corners :: "('g, 'arr) library \<Rightarrow> dataset \<Rightarrow> error + coord list" where
  "load_corners L ds =
     (let b = ds_bounds ds;
          native = [(b_left b, b_bottom b), (b_right b, b_bottom b),
                    (b_right b, b_top b), (b_left b, b_top b)]
      in case ds_crs ds of
           None \<Rightarrow> Inr native
         | Some c \<Rightarrow>
             if \<not> is_geographic c then for_each (proj_transform L (crs_name c) WGS84) native
             else Inr native)"

text \<open>
  Lines 95 and 96: the ring \<open>[[c[0], c[1]] for c in corners]\<close>, closed by
  \<open>ring.append(ring[0])\<close>.
\<close>

definition bounds_ring :: "coord list \<Rightarrow> error + ring" where
  "bounds_ring corners =
     (let ring = map (\<lambda>c. (fst c, snd c)) corners in
      case ring of
        [] \<Rightarrow> Inl IndexError
      | r0 # _ \<Rightarrow> Inr (ring @ [r0]))"

text \<open>
  The body of \<open>with rasterio.open(path) as ds\<close> in \<open>RasterStore.load\<close>: the corners,
  the bounds, the ring and the metadata record.
\<close>

definition raster_info :: "('g, 'arr) library \<Rightarrow> string \<Rightarrow> dataset \<Rightarrow> error + RasterInfo" where
  "raster_info L file_path ds =
     and_then (load_corners L ds) (\<lambda>corners.
     and_then (py_min (map fst corners)) (\<lambda>west.
     and_then (py_min (map snd corners)) (\<lambda>south.
     and_then (py_max (map fst corners)) (\<lambda>east.
     and_then (py_max (map snd corners)) (\<lambda>north.
     and_then (bounds_ring corners) (\<lambda>ring.
       Inr \<lparr>path = file_path,
            crs = (case ds_crs ds of None \<Rightarrow> ''None'' | Some c \<Rightarrow> crs_name c),
            width = ds_width ds,
            height = ds_height ds,
            res_x = fst (ds_res ds),
            res_y = snd (ds_res ds),
            bands = ds_count ds,
            nodata = ds_nodata ds,
            bounds = [(''west'', west), (''south'', south),
                      (''east'', east), (''north'', north)],
            bounds_polygon = ring\<rparr>))))))"

text \<open>
  \<open>RasterStore.load\<close>: the store \<open>self._rasters\<close> is passed and returned. The fresh
  identifier (from \<open>uuid4\<close>) and the path of the temporary file the upload was written to
  are arguments.
\<close>

definition load ::
  "('g, 'arr) library \<Rightarrow> (string \<rightharpoonup> RasterInfo) \<Rightarrow> string \<Rightarrow> string
     \<Rightarrow> error + ((string \<rightharpoonup> RasterInfo) \<times> string \<times> RasterInfo)" where
  "load L rasters raster_id file_path =
     and_then (rasterio_open L file_path) (\<lambda>ds.
     and_then (raster_info L file_path ds) (\<lambda>info.
       Inr (rasters(raster_id \<mapsto> info), raster_id, info)))"

section \<open>The server: request parameters and the four query endpoints\<close>

text \<open>
  The body of a request is the dict that \<open>get_json\<close> parses, a map from field names to
  JSON values.
\<close>

datatype 'g response =
    Ok200 "'g QueryResult list"
  | Err400 error
  | Err500 error
  | Unhandled error

definition VALID_STATS :: "string list" where
  "VALID_STATS = [''sum'', ''mean'', ''max'', ''min'', ''count'', ''stdev'', ''median'']"

text \<open>Python truth value of a parsed JSON value (\<open>if not x\<close>).\<close>

fun truthy :: "json \<Rightarrow> bool" where
  "truthy JNull = False"
| "truthy (JBool b) = b"
| "truthy (JNum n) = (num_value n \<noteq> 0)"
| "truthy (JStr s) = (s \<noteq> [])"
| "truthy (JArr xs) = (xs \<noteq> [])"
| "truthy (JObj kvs) = (kvs \<noteq> [])"

text \<open>
  Iterating over a JSON value: a list gives its elements, a string its characters, a
  dict its keys; anything else raises TypeError.
\<close>

fun py_iter :: "json \<Rightarrow> error + json list" where
  "py_iter (JArr xs) = Inr xs"
| "py_iter (JStr s) = Inr (map (\<lambda>c. JStr [c]) s)"
| "py_iter (JObj kvs) = Inr (map (\<lambda>kv. JStr (fst kv)) kvs)"
| "py_iter j = Inl TypeError"

text \<open>\<open>float(x)\<close>: an int becomes the float of the same value, a float stays as it is.\<close>

fun to_float :: "pynum \<Rightarrow> pynum" where
  "to_float (PyInt i) = PyFloat (real_of_int i)"
| "to_float (PyFloat r) = PyFloat r"
| "to_float PyNegZero = PyNegZero"

fun py_float :: "('g, 'arr) library \<Rightarrow> json \<Rightarrow> error + pynum" where
  "py_float L (JNum n) = Inr (to_float n)"
| "py_float L (JBool b) = Inr (PyFloat (if b then 1 else 0))"
| "py_float L (JStr s) =
     (case float_of_str L s of
        None \<Rightarrow> Inl (ValueError ''could not convert string to float'')
      | Some n \<Rightarrow> Inr (to_float n))"
| "py_float L j = Inl TypeError"

text \<open>A float that the endpoint only hands on to the engine, as its value.\<close>

definition float_value :: "('g, 'arr) library \<Rightarrow> json \<Rightarrow> error + real" where
  "float_value L j = (case py_float L j of Inl e \<Rightarrow> Inl e | Inr n \<Rightarrow> Inr (num_value n))"

text \<open>\<open>int(x)\<close>: a float is truncated towards zero.\<close>

fun py_int :: "('g, 'arr) library \<Rightarrow> json \<Rightarrow> error + int" where
  "py_int L (JNum (PyInt i)) = Inr i"
| "py_int L (JNum (PyFloat r)) = Inr (if 0 \<le> r then \<lfloor>r\<rfloor> else \<lceil>r\<rceil>)"
| "py_int L (JNum PyNegZero) = Inr 0"
| "py_int L (JBool b) = Inr (if b then 1 else 0)"
| "py_int L (JStr s) =
     (case int_of_str L s of
        None \<Rightarrow> Inl (ValueError ''invalid literal for int()'')
      | Some i \<Rightarrow> Inr i)"
| "py_int L j = Inl TypeError"

text \<open>\<open>data[k]\<close> on the request dict.\<close>

definition item :: "(string \<rightharpoonup> json) \<Rightarrow> string \<Rightarrow> error + json" where
  "item data k = (case data k of None \<Rightarrow> Inl (KeyError k) | Some j \<Rightarrow> Inr j)"

text \<open>
  \<open>store.get(raster_id)\<close>: the keys of the store are strings, so no other hashable value
  is found; a list or a dict is unhashable.
\<close>

fun store_get :: "(string \<rightharpoonup> RasterInfo) \<Rightarrow> json \<Rightarrow> error + RasterInfo option" where
  "store_get rasters (JStr s) = Inr (rasters s)"
| "store_get rasters (JArr xs) = Inl TypeError"
| "store_get rasters (JObj kvs) = Inl TypeError"
| "store_get rasters j = Inr None"

text \<open>
  \<open>[s for s in stats if s in VALID_STATS]\<close>: an element is kept when it equals one of
  the names, so only strings are kept.
\<close>

fun valid_names :: "json list \<Rightarrow> string list" where
  "valid_names [] = []"
| "valid_names (JStr s # js) = (if s \<in> set VALID_STATS then s # valid_names js else valid_names js)"
| "valid_names (j # js) = valid_names js"

text \<open>
  Lines 118 to 121 of the server: the requested names, \<open>["sum"]\<close> when the field is
  missing, filtered by \<open>VALID_STATS\<close>, and \<open>["sum"]\<close> again when nothing is left.
\<close>

definition stats_of_request :: "(string \<rightharpoonup> json) \<Rightarrow> error + string list" where
  "stats_of_request data =
     and_then (py_iter (case data ''stats'' of
                          None \<Rightarrow> JArr [JStr ''sum'']
                        | Some j \<Rightarrow> j)) (\<lambda>requested.
       (let filtered = valid_names requested
        in Inr (if filtered = [] then [''sum''] else filtered)))"

definition parse_query_params ::
  "('g, 'arr) library \<Rightarrow> (string \<rightharpoonup> RasterInfo) \<Rightarrow> (string \<rightharpoonup> json)
     \<Rightarrow> error + (RasterInfo \<times> string list \<times> int)" where
  "parse_query_params L rasters data =
     (case data ''raster_id'' of
        None \<Rightarrow> Inl (ValueError ''Missing raster_id'')
      | Some raster_id \<Rightarrow>
          if \<not> truthy raster_id then Inl (ValueError ''Missing raster_id'')
          else
            and_then (store_get rasters raster_id) (\<lambda>found.
              case found of
                None \<Rightarrow> Inl (ValueError ''Raster not found. Upload first.'')
              | Some info \<Rightarrow>
                  and_then (stats_of_request data) (\<lambda>stat_names.
                  and_then (py_int L (case data ''band'' of
                                        None \<Rightarrow> JNum (PyInt 1)
                                      | Some j \<Rightarrow> j)) (\<lambda>band.
                    Inr (info, stat_names, band)))))"

text \<open>
  The first \<open>try\<close> block of an endpoint answers 400 for KeyError, ValueError and
  TypeError; any other exception leaves the handler.
\<close>

fun bad_request :: "error \<Rightarrow> 'g response" where
  "bad_request (KeyError k) = Err400 (KeyError k)"
| "bad_request (ValueError m) = Err400 (ValueError m)"
| "bad_request TypeError = Err400 TypeError"
| "bad_request e = Unhandled e"



definition band_params ::
  "('g, 'arr) library \<Rightarrow> (string \<rightharpoonup> RasterInfo) \<Rightarrow> (string \<rightharpoonup> json)
     \<Rightarrow> error + (RasterInfo \<times> string list \<times> int \<times> real \<times> real \<times> real list)" where
  "band_params L rasters data =
     and_then (parse_query_params L rasters data) (\<lambda>(info, stat_names, band).
     and_then (and_then (item data ''lon'') (float_value L)) (\<lambda>lon.
     and_then (and_then (item data ''lat'') (float_value L)) (\<lambda>lat.
     and_then (and_then (and_then (item data ''edges_km'') py_iter) (for_each (float_value L)))
       (\<lambda>edges.
         if length edges < 2 then Inl (ValueError ''Need at least 2 edges'')
         else Inr (info, stat_names, band, lon, lat, edges)))))"

definition query_band ::
  "('g, 'arr) library \<Rightarrow> (string \<rightharpoonup> RasterInfo) \<Rightarrow> (string \<rightharpoonup> json) \<Rightarrow> 'g response" where
  "query_band L rasters data =
     (case band_params L rasters data of
        Inl e \<Rightarrow> bad_request e
      | Inr (info, stat_names, band, lon, lat, edges) \<Rightarrow>
          (case run_band_query L (path info) lon lat edges stat_names band of
             Inl e \<Rightarrow> Err500 e
           | Inr results \<Rightarrow> Ok200 results))"










section \<open>A small library for evaluating the model\<close>

text \<open>
  A stand-in for the libraries, simple enough to evaluate: the plane with the taxicab
  distance for the geodesy (so a circle is a diamond), a difference that keeps the
  exterior of its first operand and makes the exterior of the second a hole, and the list
  of the unmasked values for the masked array. It is used only to run the model on
  concrete requests.
\<close>

definition projected_ds :: dataset where
  "projected_ds =
     \<lparr>ds_crs = Some \<lparr>crs_name = ''EPSG:3857'', is_geographic = False\<rparr>,
      ds_bounds = \<lparr>b_left = 0, b_bottom = 0, b_right = 4, b_top = 3\<rparr>,
      ds_width = 4, ds_height = 3, ds_res = (1, 1), ds_count = 1,
      ds_nodata = Some 0\<rparr>"

definition toy_library :: "(ring list, real list) library" where
  "toy_library =
     \<lparr>has_exact = False,
      geod_fwd = (\<lambda>lon lat az d.
         Inr (lon + d * (if az \<le> 90 then az / 90 else if az \<le> 270 then 2 - az / 90
                         else az / 90 - 4),
              lat + d * (if az \<le> 180 then 1 - az / 90 else az / 90 - 3))),
      shp_difference = (\<lambda>p q. Inr \<lparr>exterior = exterior p, interiors = [exterior q]\<rparr>),
      shp_box = (\<lambda>minx miny maxx maxy.
         \<lparr>exterior = [(maxx, miny), (maxx, maxy), (minx, maxy), (minx, miny), (maxx, miny)],
          interiors = []\<rparr>),
      shp_mapping = (\<lambda>p. exterior p # interiors p),
      float_str = (\<lambda>r. if r = 1 then ''1.0'' else if r = 2 then ''2.0''
                        else if r = 5 then ''5.0'' else ''?''),
      int_str = (\<lambda>i. if i = 1 then ''1'' else if i = 5 then ''5'' else ''?''),
      json_text = (\<lambda>j. ''?''),
      float_of_str = (\<lambda>s. None),
      int_of_str = (\<lambda>s. None),
      exact_extract = (\<lambda>p g names. Inl (LibraryError ''exactextract is not installed'')),
      rasterio_open = (\<lambda>p. Inr projected_ds),
      proj_transform = (\<lambda>src dst c. Inr c),
      rio_mask = (\<lambda>ds g b. Inr [10, 0, 10]),
      index0 = (\<lambda>arr. Inr arr),
      masked_where_eq = (\<lambda>arr nd. filter (\<lambda>v. v \<noteq> nd) arr),
      ma_sum = (\<lambda>arr. Inr (Fin (sum_list arr))),
      ma_mean = (\<lambda>arr. Inr NaN),
      ma_max = (\<lambda>arr. Inr NaN),
      ma_min = (\<lambda>arr. Inr NaN),
      ma_count = (\<lambda>arr. Inr (Fin (real (length arr)))),
      ma_std = (\<lambda>arr. Inr NaN),
      ma_median = (\<lambda>arr. Inr NaN)\<rparr>"

definition toy_info :: RasterInfo where
  "toy_info = \<lparr>path = ''/tmp/r1.tif'', crs = ''EPSG:3857'', width = 4, height = 3,
     res_x = 1, res_y = 1, bands = 1, nodata = Some 0,
     bounds = [(''west'', 0), (''south'', 0), (''east'', 4), (''north'', 3)],
     bounds_polygon = [(0, 0), (4, 0), (4, 3), (0, 3), (0, 0)]\<rparr>"

definition toy_rasters :: "string \<rightharpoonup> RasterInfo" where
  "toy_rasters = [''r1'' \<mapsto> toy_info]"


text \<open>
  The same library with exactextract installed: it computes the recognised statistics
  (here all zero) and raises for a name it does not know.
\<close>

definition strict_library :: "(ring list, real list) library" where
  "strict_library =
     toy_library
       \<lparr>has_exact := True,
        exact_extract := (\<lambda>p g names.
           if list_all (\<lambda>s. s \<in> set VALID_STATS) names
           then Inr (map_of (map (\<lambda>s. (s, Fin 0)) names))
           else Inl (LibraryError ''Unsupported stat''))\<rparr>"

definition square_with_hole :: polygon where
  "square_with_hole =
     \<lparr>exterior = [(0, 0), (4, 0), (4, 4), (0, 4), (0, 0)],
      interiors = [[(1, 1), (1, 2), (2, 2), (2, 1), (1, 1)]]\<rparr>"

definition duplicate_edges_request :: "string \<rightharpoonup> json" where
  "duplicate_edges_request =
     [''raster_id'' \<mapsto> JStr ''r1'', ''lon'' \<mapsto> JNum (PyInt 0), ''lat'' \<mapsto> JNum (PyInt 0),
      ''edges_km'' \<mapsto> JArr [JNum (PyInt 5), JNum (PyInt 5)]]"

definition compare_points :: "point list" where
  "compare_points =
     [\<lparr>pt_name = ''B'', pt_lat = 2, pt_lon = 3\<rparr>, \<lparr>pt_name = ''A'', pt_lat = 0, pt_lon = 1\<rparr>]"

section \<open>Properties of the loops\<close>

lemma for_each_Inr_iff:
  "for_each body xs = Inr ys \<longleftrightarrow> list_all2 (\<lambda>x y. body x = Inr y) xs ys"
proof (induction xs arbitrary: ys)
  case Nil
  show ?case by auto
next
  case (Cons x xs)
  show ?case
    by (auto simp: list_all2_Cons1 Cons.IH[symmetric] split: sum.splits)
qed

lemma and_then_Inr_iff:
  "and_then r f = Inr y \<longleftrightarrow> (\<exists>x. r = Inr x \<and> f x = Inr y)"
  by (cases r) (simp_all add: and_then_def)

lemma for_each_total:
  "(\<And>x. x \<in> set xs \<Longrightarrow> \<exists>y. body x = Inr y) \<Longrightarrow> \<exists>ys. length ys = length xs \<and> for_each body xs = Inr ys"
proof (induction xs)
  case Nil
  show ?case by simp
next
  case (Cons x xs)
  from Cons.prems obtain y where y: "body x = Inr y" by auto
  from Cons obtain ys where "length ys = length xs" "for_each body xs = Inr ys" by auto
  with y have "length (y # ys) = length (x # xs) \<and> for_each body (x # xs) = Inr (y # ys)" by simp
  then show ?case by blast
qed

lemma for_each_length: "for_each body xs = Inr ys \<Longrightarrow> length ys = length xs"
  by (simp add: for_each_Inr_iff list_all2_lengthD)


lemma for_each_related:
  "(\<And>x. x \<in> set xs \<Longrightarrow> \<exists>y. body x = Inr y \<and> P x y)
     \<Longrightarrow> \<exists>ys. for_each body xs = Inr ys \<and> list_all2 P xs ys"
proof (induction xs)
  case Nil
  show ?case by simp
next
  case (Cons x xs)
  from Cons.prems obtain y where y: "body x = Inr y" "P x y" by auto
  from Cons obtain ys where "for_each body xs = Inr ys" "list_all2 P xs ys" by auto
  with y have "for_each body (x # xs) = Inr (y # ys) \<and> list_all2 P (x # xs) (y # ys)" by simp
  then show ?case by blast
qed

section \<open>Geometry builders return\<close>

lemma zip_fst_snd: "zip (map fst pts) (map snd pts) = pts"
  by (induction pts) auto

lemma Polygon_Inr_iff:
  "Polygon shell = Inr p \<longleftrightarrow> 4 \<le> length shell \<and> p = \<lparr>exterior = shell, interiors = []\<rparr>"
  by (auto simp: Polygon_def)

text \<open>
  With \<open>n \<ge> 3\<close> bearings \<open>geodesic_circle\<close> returns whenever \<open>Geod.fwd\<close> does, whatever
  the radius; the ring has \<open>n + 1\<close> coordinates.
\<close>

lemma geodesic_circle_returns:
  assumes fwd: "\<And>lo la a d. \<exists>c. geod_fwd L lo la a d = Inr c" and n: "3 \<le> n"
  shows "\<exists>p. geodesic_circle L lon lat r n = Inr p \<and> length (exterior p) = n + 1
            \<and> interiors p = []"
proof -
  let ?args = "zip (replicate n lon) (zip (replicate n lat) (zip (linspace_360 n) (replicate n r)))"
  have len: "length ?args = n" by (simp add: linspace_360_def)
  have "\<exists>y. (\<lambda>(lo, la, a, d). geod_fwd L lo la a d) x = Inr y" for x
    using fwd by (cases x) auto
  then obtain pts where pts: "length pts = length ?args"
      "for_each (\<lambda>(lo, la, a, d). geod_fwd L lo la a d) ?args = Inr pts"
    using for_each_total [of ?args "\<lambda>(lo, la, a, d). geod_fwd L lo la a d"] by blast
  from pts(1) len n obtain c0 rest where cons: "pts = c0 # rest" by (cases pts) auto
  from pts(1) len n cons have "4 \<le> length (pts @ [c0])" by simp
  then have "Polygon (pts @ [c0]) = Inr \<lparr>exterior = pts @ [c0], interiors = []\<rparr>"
    by (simp add: Polygon_Inr_iff)
  with pts cons len show ?thesis
    by (simp add: geodesic_circle_def geod_fwd_arrays_def zip_fst_snd del: for_each.simps)
qed

lemma geodesic_circle_Inr:
  assumes "geodesic_circle L lon lat r n = Inr p"
  shows "\<exists>c0 rest. p = \<lparr>exterior = (c0 # rest) @ [c0], interiors = []\<rparr>"
  using assms
  by (auto simp: geodesic_circle_def Let_def Polygon_Inr_iff
           split: sum.splits prod.splits list.splits)

section \<open>The small library runs\<close>

lemma toy_geod_fwd: "\<exists>c. geod_fwd toy_library lo la a d = Inr c"
  by (simp add: toy_library_def)

lemma circle_pts: "3 \<le> CIRCLE_PTS"
  by (simp add: CIRCLE_PTS_def)

lemma toy_circle:
  "\<exists>p. geodesic_circle toy_library lon lat r CIRCLE_PTS = Inr p \<and> 4 \<le> length (exterior p)"
proof -
  obtain p where "geodesic_circle toy_library lon lat r CIRCLE_PTS = Inr p"
    "length (exterior p) = CIRCLE_PTS + 1"
    using geodesic_circle_returns [OF toy_geod_fwd circle_pts] by blast
  with circle_pts show ?thesis by auto
qed

lemma toy_str:
  "float_str toy_library 1 = ''1.0''" "float_str toy_library 5 = ''5.0''"
  "float_str toy_library 2 = ''2.0''" "int_str toy_library 1 = ''1''"
  "int_str toy_library 5 = ''5''"
  by (simp_all add: toy_library_def)

lemma toy_geom_native:
  assumes "4 \<le> length (exterior g)"
  shows "\<exists>g'. geom_native toy_library projected_ds g = Inr g'"
proof -
  have same: "for_each (proj_transform toy_library src dst) pts = Inr pts" for src dst pts
    by (induction pts) (simp_all add: toy_library_def)
  show ?thesis
    using assms
    by (simp add: geom_native_def transform_arrays_def projected_ds_def Polygon_def same
          zip_fst_snd)
qed

lemma toy_masked_pixels:
  assumes "4 \<le> length (exterior g)"
  shows "masked_pixels toy_library tif g band = Inr [10, 10]"
proof -
  have ds: "rasterio_open toy_library tif = Inr projected_ds" "ds_nodata projected_ds = Some 0"
    by (simp_all add: toy_library_def projected_ds_def)
  obtain g' where g': "geom_native toy_library projected_ds g = Inr g'"
    using toy_geom_native [OF assms] by blast
  have mask: "rio_mask toy_library projected_ds g' band = Inr [10, 0, 10]"
    "index0 toy_library [10, 0, 10] = Inr [10, 0, 10]"
    "masked_where_eq toy_library [10, 0, 10] 0 = [10, 10]"
    by (simp_all add: toy_library_def)
  show ?thesis
    by (simp add: masked_pixels_def ds g' mask)
qed

lemma toy_fallback: "\<not> has_exact toy_library"
  by (simp add: toy_library_def)

lemma toy_compute_stats:
  assumes "4 \<le> length (exterior g)"
  shows "compute_stats toy_library tif g [''sum''] band = Inr [''sum'' \<mapsto> Fin 20]"
proof -
  have "ma_sum toy_library [10, 10] = Inr (Fin 20)"
    by (simp add: toy_library_def)
  then show ?thesis
    by (simp add: compute_stats_def toy_fallback toy_masked_pixels [OF assms] one_stat_def)
qed


section \<open>Circle query\<close>

lemma circle_result_Inr_iff:
  "circle_result L tif lon lat sts band r = Inr q \<longleftrightarrow>
     (\<exists>circ vals. geodesic_circle L lon lat (num_value r * 1000) CIRCLE_PTS = Inr circ \<and>
        compute_stats L tif circ sts band = Inr vals \<and>
        q = \<lparr>label = py_str L r @ '' km'', geometry_geojson = shp_mapping L circ,
             stats = vals\<rparr>)"
  by (auto simp: circle_result_def split: sum.splits)

lemma sort_key_same_ties:
  assumes "\<And>v. filter (\<lambda>r. f r = v) ys = filter (\<lambda>r. f r = v) xs"
  shows "sort_key f ys = sort_key f xs"
proof (rule properties_for_sort_key)
  have "count (mset ys) x = count (mset xs) x" for x
  proof -
    have "count (mset ys) x = count (mset (filter (\<lambda>r. f r = f x) ys)) x"
      by simp
    also have "\<dots> = count (mset (filter (\<lambda>r. f r = f x) xs)) x"
      by (simp only: assms)
    also have "\<dots> = count (mset xs) x"
      by simp
    finally show ?thesis .
  qed
  then show "mset (sort_key f xs) = mset ys"
    by (simp add: multiset_eq_iff)
next
  fix k
  have "filter (\<lambda>x. f k = f x) (sort_key f xs) = filter (\<lambda>x. f x = f k) (sort_key f xs)"
    by (rule filter_cong) auto
  also have "\<dots> = filter (\<lambda>x. f x = f k) xs"
    by (rule sort_key_stable)
  also have "\<dots> = filter (\<lambda>x. f x = f k) ys"
    by (simp only: assms)
  also have "\<dots> = filter (\<lambda>x. f k = f x) ys"
    by (rule filter_cong) auto
  finally show "filter (\<lambda>x. f k = f x) (sort_key f xs) = filter (\<lambda>x. f k = f x) ys" .
next
  show "sorted (map f (sort_key f xs))"
    by simp
qed

lemma inj_on_same_ties:
  assumes "mset ys = mset xs" and "inj_on f (set xs)"
  shows "filter (\<lambda>r. f r = v) ys = filter (\<lambda>r. f r = v) xs"
proof (cases "\<exists>x\<in>set xs. f x = v")
  case False
  moreover from assms(1) have "set ys = set xs"
    by (metis set_mset_mset)
  ultimately show ?thesis
    by (simp add: filter_False)
next
  case True
  then obtain x where x: "x \<in> set xs" "f x = v" by blast
  from assms(1) have sets: "set ys = set xs"
    by (metis set_mset_mset)
  have eq: "filter (\<lambda>r. f r = v) zs = filter (\<lambda>r. x = r) zs" if "set zs = set xs" for zs
    using that x assms(2) by (intro filter_cong) (auto dest: inj_onD)
  have "filter (\<lambda>r. f r = v) ys = replicate (count (mset ys) x) x"
    by (simp add: eq [OF sets] replicate_count_mset_eq_filter_eq)
  also have "\<dots> = replicate (count (mset xs) x) x"
    by (simp add: assms(1))
  also have "\<dots> = filter (\<lambda>r. f r = v) xs"
    by (simp add: eq replicate_count_mset_eq_filter_eq)
  finally show ?thesis .
qed

lemma list_all2_map_eq:
  "list_all2 (\<lambda>x y. g y = f x) xs ys \<Longrightarrow> map g ys = map f xs"
  by (induction rule: list_all2_induct) simp_all

lemma toy_circle_query_labels:
  "\<exists>rs. run_circle_query toy_library tif lon lat radii [''sum''] band = Inr rs
        \<and> map label rs = map (\<lambda>r. py_str toy_library r @ '' km'') (sort_key num_value radii)"
proof -
  have "\<exists>q. circle_result toy_library tif lon lat [''sum''] band r = Inr q
            \<and> label q = py_str toy_library r @ '' km''" for r
  proof -
    obtain circ where "geodesic_circle toy_library lon lat (num_value r * 1000) CIRCLE_PTS = Inr circ"
      "4 \<le> length (exterior circ)"
      using toy_circle by blast
    then show ?thesis
      by (simp add: circle_result_def toy_compute_stats)
  qed
  then obtain rs where
    "for_each (circle_result toy_library tif lon lat [''sum''] band) (sort_key num_value radii)
       = Inr rs"
    "list_all2 (\<lambda>r q. label q = py_str toy_library r @ '' km'') (sort_key num_value radii) rs"
    using for_each_related
            [of "sort_key num_value radii" "circle_result toy_library tif lon lat [''sum''] band"
                "\<lambda>r q. label q = py_str toy_library r @ '' km''"]
    by blast
  then show ?thesis
    by (auto simp: run_circle_query_def dest: list_all2_map_eq)
qed

text \<open>
  C3, as the code has it. The circle query works through the radii in ascending order
  of their values, radii that compare equal in the order of the input: there is such a
  rearrangement of the input radii for which the query returns a list exactly when every
  circle and its statistics can be computed, and then the list has one result per radius,
  the \<open>i\<close>-th one built from the \<open>i\<close>-th radius of the rearrangement and labelled with
  that radius followed by \<open> km\<close>. The outcome is the same for two inputs that hold the
  radii of each value in the same order, hence for every permutation of an input in which
  radii that compare equal are the same number.
\<close>

theorem circle_query_stable_by_radius:
  "\<exists>ordered. sorted (map num_value ordered) \<and> mset ordered = mset radii_km \<and>
     (\<forall>v. filter (\<lambda>r. num_value r = v) ordered = filter (\<lambda>r. num_value r = v) radii_km) \<and>
     (\<forall>rs. run_circle_query L tif lon lat radii_km sts band = Inr rs \<longleftrightarrow>
        length rs = length radii_km \<and>
        (\<forall>i<length radii_km. \<exists>circ vals.
            geodesic_circle L lon lat (num_value (ordered ! i) * 1000) CIRCLE_PTS = Inr circ \<and>
            compute_stats L tif circ sts band = Inr vals \<and>
            rs ! i = \<lparr>label = py_str L (ordered ! i) @ '' km'',
                      geometry_geojson = shp_mapping L circ, stats = vals\<rparr>)) \<and>
     (\<forall>radii'. (\<forall>v. filter (\<lambda>r. num_value r = v) radii'
                      = filter (\<lambda>r. num_value r = v) radii_km) \<longrightarrow>
        run_circle_query L tif lon lat radii' sts band
          = run_circle_query L tif lon lat radii_km sts band) \<and>
     (\<forall>radii'. mset radii' = mset radii_km \<and> inj_on num_value (set radii_km) \<longrightarrow>
        run_circle_query L tif lon lat radii' sts band
          = run_circle_query L tif lon lat radii_km sts band)"
proof -
  let ?ordered = "sort_key num_value radii_km"
  have ties: "run_circle_query L tif lon lat radii' sts band
          = run_circle_query L tif lon lat radii_km sts band"
    if "\<forall>v. filter (\<lambda>r. num_value r = v) radii' = filter (\<lambda>r. num_value r = v) radii_km"
    for radii'
  proof -
    from that have "sort_key num_value radii' = sort_key num_value radii_km"
      by (intro sort_key_same_ties) simp
    then show ?thesis by (simp add: run_circle_query_def)
  qed
  have perm: "run_circle_query L tif lon lat radii' sts band
          = run_circle_query L tif lon lat radii_km sts band"
    if "mset radii' = mset radii_km \<and> inj_on num_value (set radii_km)" for radii'
    using that by (intro ties allI inj_on_same_ties) simp_all
  have char: "run_circle_query L tif lon lat radii_km sts band = Inr rs \<longleftrightarrow>
        length rs = length radii_km \<and>
        (\<forall>i<length radii_km. \<exists>circ vals.
            geodesic_circle L lon lat (num_value (?ordered ! i) * 1000) CIRCLE_PTS = Inr circ \<and>
            compute_stats L tif circ sts band = Inr vals \<and>
            rs ! i = \<lparr>label = py_str L (?ordered ! i) @ '' km'',
                      geometry_geojson = shp_mapping L circ, stats = vals\<rparr>)" for rs
    unfolding run_circle_query_def for_each_Inr_iff list_all2_conv_all_nth circle_result_Inr_iff
    by auto
  have ord: "sorted (map num_value ?ordered)" "mset ?ordered = mset radii_km"
    "\<forall>v. filter (\<lambda>r. num_value r = v) ?ordered = filter (\<lambda>r. num_value r = v) radii_km"
    by (simp_all add: sort_key_stable)
  show ?thesis
    apply (rule exI [of _ ?ordered])
    apply (intro conjI allI impI)
         apply (rule ord(1))
        apply (rule ord(2))
       apply (rule ord(3) [rule_format])
      apply (rule char)
     apply (erule ties)
    apply (erule perm)
    done
qed

theorem circle_query_stable_by_radius_witness:
  "inj_on num_value (set [PyFloat 5, PyInt 1])
   \<and> (\<exists>rs. run_circle_query toy_library ''/tmp/r1.tif'' 0 0 [PyFloat 5, PyInt 1] [''sum''] 1
             = Inr rs
          \<and> map label rs = [''1 km'', ''5.0 km''])
   \<and> run_circle_query toy_library ''/tmp/r1.tif'' 0 0 [PyInt 1, PyFloat 5] [''sum''] 1
       = run_circle_query toy_library ''/tmp/r1.tif'' 0 0 [PyFloat 5, PyInt 1] [''sum''] 1"
proof -
  let ?run = "\<lambda>radii. run_circle_query toy_library ''/tmp/r1.tif'' 0 0 radii [''sum''] 1"
  have inj: "inj_on num_value (set [PyFloat 5, PyInt 1])"
    by simp
  have perm: "mset [PyInt 1, PyFloat 5] = mset [PyFloat 5, PyInt 1]"
    by simp
  from circle_query_stable_by_radius
         [of "[PyFloat 5, PyInt 1]" toy_library "''/tmp/r1.tif''" 0 0 "[''sum'']" 1]
  have "\<forall>radii'. mset radii' = mset [PyFloat 5, PyInt 1]
            \<and> inj_on num_value (set [PyFloat 5, PyInt 1]) \<longrightarrow>
          ?run radii' = ?run [PyFloat 5, PyInt 1]"
    by blast
  with inj perm have same: "?run [PyInt 1, PyFloat 5] = ?run [PyFloat 5, PyInt 1]"
    by blast
  obtain rs where "?run [PyFloat 5, PyInt 1] = Inr rs"
    "map label rs = map (\<lambda>r. py_str toy_library r @ '' km'')
                      (sort_key num_value [PyFloat 5, PyInt 1])"
    using toy_circle_query_labels by blast
  then have rs: "?run [PyFloat 5, PyInt 1] = Inr rs" "map label rs = [''1 km'', ''5.0 km'']"
    by (simp_all add: toy_str)
  show ?thesis
  proof (intro conjI)
    show "inj_on num_value (set [PyFloat 5, PyInt 1])" by (rule inj)
    show "\<exists>rs. ?run [PyFloat 5, PyInt 1] = Inr rs \<and> map label rs = [''1 km'', ''5.0 km'']"
      using rs by (intro exI [of _ rs]) simp
    show "?run [PyInt 1, PyFloat 5] = ?run [PyFloat 5, PyInt 1]" by (rule same)
  qed
qed

text \<open>
  C3, as stated, fails: the int \<open>5\<close> and the float \<open>5.0\<close> compare equal, so \<open>sorted\<close>
  leaves them in the order of the input, and the two orders of the same two radii give
  the labels in different orders.
\<close>

theorem circle_query_permutation_changes_labels:
  "map_sum id (map label)
     (run_circle_query toy_library ''/tmp/r1.tif'' 0 0 [PyInt 5, PyFloat 5] [''sum''] 1)
     = Inr [''5 km'', ''5.0 km'']
   \<and> map_sum id (map label)
     (run_circle_query toy_library ''/tmp/r1.tif'' 0 0 [PyFloat 5, PyInt 5] [''sum''] 1)
     = Inr [''5.0 km'', ''5 km'']"
proof -
  obtain rs where "run_circle_query toy_library ''/tmp/r1.tif'' 0 0 [PyInt 5, PyFloat 5] [''sum''] 1
                     = Inr rs"
    "map label rs = map (\<lambda>r. py_str toy_library r @ '' km'')
                      (sort_key num_value [PyInt 5, PyFloat 5])"
    using toy_circle_query_labels by blast
  moreover
  obtain rs' where "run_circle_query toy_library ''/tmp/r1.tif'' 0 0 [PyFloat 5, PyInt 5] [''sum''] 1
                     = Inr rs'"
    "map label rs' = map (\<lambda>r. py_str toy_library r @ '' km'')
                      (sort_key num_value [PyFloat 5, PyInt 5])"
    using toy_circle_query_labels by blast
  ultimately show ?thesis
    by (simp add: toy_str)
qed

section \<open>Band query\<close>






section \<open>Compare query\<close>

lemma compare_result_Inr_iff:
  "compare_result L tif radius_km sts band pt = Inr q \<longleftrightarrow>
     (\<exists>circ vals.
        geodesic_circle L (pt_lon pt) (pt_lat pt) (radius_km * 1000) CIRCLE_PTS = Inr circ \<and>
        compute_stats L tif circ sts band = Inr vals \<and>
        q = \<lparr>label = pt_name pt, geometry_geojson = shp_mapping L circ,
             stats = vals(''_lat'' \<mapsto> Fin (pt_lat pt), ''_lon'' \<mapsto> Fin (pt_lon pt))\<rparr>)"
  by (auto simp: compare_result_def split: sum.splits)

text \<open>
  C4. The compare query returns a list exactly when the circle of every point and its
  statistics can be computed; the list then has one result per point, in the order of the
  input, the \<open>i\<close>-th one labelled with the name of the \<open>i\<close>-th point, and its statistics
  map holds the latitude and the longitude of that point under the keys \<open>_lat\<close> and
  \<open>_lon\<close>.
\<close>

theorem compare_query_order_and_metadata:
  "(run_compare_query L tif points radius_km sts band = Inr rs \<longleftrightarrow>
      length rs = length points \<and>
      (\<forall>i<length points. \<exists>circ vals.
          geodesic_circle L (pt_lon (points ! i)) (pt_lat (points ! i)) (radius_km * 1000)
            CIRCLE_PTS = Inr circ \<and>
          compute_stats L tif circ sts band = Inr vals \<and>
          rs ! i = \<lparr>label = pt_name (points ! i), geometry_geojson = shp_mapping L circ,
                    stats = vals(''_lat'' \<mapsto> Fin (pt_lat (points ! i)),
                                 ''_lon'' \<mapsto> Fin (pt_lon (points ! i)))\<rparr>))
   \<and> (run_compare_query L tif points radius_km sts band = Inr rs \<longrightarrow>
        length rs = length points \<and>
        (\<forall>i<length points.
            label (rs ! i) = pt_name (points ! i) \<and>
            stats (rs ! i) ''_lat'' = Some (Fin (pt_lat (points ! i))) \<and>
            stats (rs ! i) ''_lon'' = Some (Fin (pt_lon (points ! i)))))"
proof -
  have char: "run_compare_query L tif points radius_km sts band = Inr rs \<longleftrightarrow>
      length rs = length points \<and>
      (\<forall>i<length points. \<exists>circ vals.
          geodesic_circle L (pt_lon (points ! i)) (pt_lat (points ! i)) (radius_km * 1000)
            CIRCLE_PTS = Inr circ \<and>
          compute_stats L tif circ sts band = Inr vals \<and>
          rs ! i = \<lparr>label = pt_name (points ! i), geometry_geojson = shp_mapping L circ,
                    stats = vals(''_lat'' \<mapsto> Fin (pt_lat (points ! i)),
                                 ''_lon'' \<mapsto> Fin (pt_lon (points ! i)))\<rparr>)"
    unfolding run_compare_query_def for_each_Inr_iff list_all2_conv_all_nth
      compare_result_Inr_iff
    by auto
  have meta: "label (rs ! i) = pt_name (points ! i) \<and>
            stats (rs ! i) ''_lat'' = Some (Fin (pt_lat (points ! i))) \<and>
            stats (rs ! i) ''_lon'' = Some (Fin (pt_lon (points ! i)))"
    if run: "run_compare_query L tif points radius_km sts band = Inr rs"
      and i: "i < length points" for i
  proof -
    from run i char obtain circ vals where
      "rs ! i = \<lparr>label = pt_name (points ! i), geometry_geojson = shp_mapping L circ,
                 stats = vals(''_lat'' \<mapsto> Fin (pt_lat (points ! i)),
                              ''_lon'' \<mapsto> Fin (pt_lon (points ! i)))\<rparr>"
      by blast
    then show ?thesis by simp
  qed
  from char meta show ?thesis by blast
qed

theorem compare_query_order_and_metadata_witness:
  "\<exists>rs. run_compare_query toy_library ''/tmp/r1.tif'' compare_points 5 [''sum''] 1 = Inr rs
     \<and> map label rs = [''B'', ''A'']
     \<and> stats (rs ! 0) ''_lat'' = Some (Fin 2) \<and> stats (rs ! 0) ''_lon'' = Some (Fin 3)
     \<and> stats (rs ! 1) ''_lat'' = Some (Fin 0) \<and> stats (rs ! 1) ''_lon'' = Some (Fin 1)"
proof -
  obtain cB where cB: "geodesic_circle toy_library 3 2 (5 * 1000) CIRCLE_PTS = Inr cB"
    "4 \<le> length (exterior cB)"
    using toy_circle by blast
  obtain cA where cA: "geodesic_circle toy_library 1 0 (5 * 1000) CIRCLE_PTS = Inr cA"
    "4 \<le> length (exterior cA)"
    using toy_circle by blast
  let ?rs = "[\<lparr>label = ''B'', geometry_geojson = shp_mapping toy_library cB,
               stats = [''sum'' \<mapsto> Fin 20, ''_lat'' \<mapsto> Fin 2, ''_lon'' \<mapsto> Fin 3]\<rparr>,
              \<lparr>label = ''A'', geometry_geojson = shp_mapping toy_library cA,
               stats = [''sum'' \<mapsto> Fin 20, ''_lat'' \<mapsto> Fin 0, ''_lon'' \<mapsto> Fin 1]\<rparr>]"
  note inst = compare_query_order_and_metadata
               [of toy_library "''/tmp/r1.tif''" compare_points 5 "[''sum'']" 1 ?rs]
  have run: "run_compare_query toy_library ''/tmp/r1.tif'' compare_points 5 [''sum''] 1 = Inr ?rs"
    unfolding inst [THEN conjunct1]
    using cA cB
    by (simp add: compare_points_def less_Suc_eq toy_compute_stats numeral_2_eq_2)
  with inst [THEN conjunct2] have
    "\<forall>i<length compare_points.
        label (?rs ! i) = pt_name (compare_points ! i) \<and>
        stats (?rs ! i) ''_lat'' = Some (Fin (pt_lat (compare_points ! i))) \<and>
        stats (?rs ! i) ''_lon'' = Some (Fin (pt_lon (compare_points ! i)))"
    by blast
  with run show ?thesis
    by (intro exI [of _ ?rs]) simp
qed

section \<open>Band endpoint\<close>

text \<open>
  \<open>run_band_query\<close> never raises for want of edges: with fewer than two distinct values
  its loop has no iteration. The endpoint rejects a list of fewer than two elements,
  counted before the duplicates are removed.
\<close>

lemma run_band_query_no_pair:
  assumes "card (set edges_km) < 2"
  shows "run_band_query L tif lon lat edges_km sts band = Inr []"
proof -
  have "length (sort (remdups edges_km)) < 2"
    using assms by (simp add: length_remdups_card_conv)
  then have "[0..<length (sort (remdups edges_km)) - 1] = []"
    by simp
  then show ?thesis
    by (simp add: run_band_query_def Let_def del: length_sort)
qed

lemma band_params_short_list:
  assumes "parse_query_params L rasters data = Inr (info, sts, band)"
    and "data ''lon'' = Some (JNum lon)" and "data ''lat'' = Some (JNum lat)"
    and "data ''edges_km'' = Some (JArr (map JNum edges))" and "length edges < 2"
  shows "query_band L rasters data = Err400 (ValueError ''Need at least 2 edges'')"
proof -
  have "for_each (float_value L) (map JNum edges)
          = Inr (map (\<lambda>n. num_value (to_float n)) edges)"
    by (induction edges) (simp_all add: float_value_def)
  with assms show ?thesis
    by (simp add: query_band_def band_params_def and_then_def item_def float_value_def)
qed

text \<open>
  C1. A band request whose \<open>edges_km\<close> is \<open>[5, 5]\<close> has one distinct edge. It passes the
  check \<open>len(edges) < 2\<close> of the endpoint, \<open>run_band_query\<close> reduces the edges to
  \<open>[5.0]\<close>, and the answer is a success with an empty result list, whatever the
  libraries compute.
\<close>

theorem band_query_duplicate_edges_not_rejected:
  "query_band L toy_rasters duplicate_edges_request = Ok200 []"
proof -
  have parse: "parse_query_params L toy_rasters duplicate_edges_request
                 = Inr (toy_info, [''sum''], 1)"
    by (simp add: parse_query_params_def stats_of_request_def and_then_def VALID_STATS_def
          toy_rasters_def duplicate_edges_request_def)
  have params: "band_params L toy_rasters duplicate_edges_request
                 = Inr (toy_info, [''sum''], 1, 0, 0, [5, 5])"
    unfolding band_params_def parse
    by (simp add: and_then_def item_def float_value_def duplicate_edges_request_def)
  have "card (set [5, 5 :: real]) < 2"
    by simp
  then have "run_band_query L (path toy_info) 0 0 [5, 5] [''sum''] 1 = Inr []"
    by (rule run_band_query_no_pair)
  with params show ?thesis
    by (simp add: query_band_def)
qed

section \<open>Reprojection in the fallback\<close>

text \<open>
  For a raster in a projected CRS the polygon handed to the rasteriser is built from the
  exterior ring alone, so it has no interior ring.
\<close>

lemma geom_native_projected:
  assumes "ds_crs ds = Some c" and "\<not> is_geographic c"
    and "geom_native L ds geom = Inr g"
  shows "interiors g = []"
  using assms
  by (auto simp: geom_native_def Polygon_def split: sum.splits prod.splits if_splits)

text \<open>
  C5. A square with a square hole, on a raster in a projected CRS: the polygon handed to
  the rasteriser is the exterior square without the hole.
\<close>

theorem geom_native_drops_interior_ring:
  "geom_native toy_library projected_ds square_with_hole
     = Inr \<lparr>exterior = [(0, 0), (4, 0), (4, 4), (0, 4), (0, 0)], interiors = []\<rparr>
   \<and> interiors square_with_hole = [[(1, 1), (1, 2), (2, 2), (2, 1), (1, 1)]]"
  by (simp add: geom_native_def transform_arrays_def projected_ds_def square_with_hole_def
        toy_library_def Polygon_def)

section \<open>Unrecognised statistic names\<close>

text \<open>
  The loop of the fallback returns exactly when every requested statistic can be
  computed, and then maps each requested name to its statistic.
\<close>

lemma one_stat_unrecognised:
  "s \<notin> set VALID_STATS \<Longrightarrow> one_stat L arr s = Inr NaN"
  by (simp add: one_stat_def VALID_STATS_def)

lemma stats_loop_Inr_iff:
  "stats_loop L arr out names = Inr m \<longleftrightarrow>
     (\<forall>s\<in>set names. \<exists>v. one_stat L arr s = Inr v) \<and>
     (\<forall>s. m s = (if s \<in> set names
                  then (case one_stat L arr s of Inl e \<Rightarrow> None | Inr v \<Rightarrow> Some v)
                  else out s))"
proof (induction names arbitrary: out)
  case Nil
  show ?case by auto
next
  case (Cons n names)
  show ?case
  proof (cases "one_stat L arr n")
    case (Inl e)
    then show ?thesis by auto
  next
    case (Inr v)
    have "(\<forall>s. m s = (if s \<in> set names
                  then (case one_stat L arr s of Inl e \<Rightarrow> None | Inr v \<Rightarrow> Some v)
                  else (out(n \<mapsto> v)) s))
      \<longleftrightarrow> (\<forall>s. m s = (if s \<in> set (n # names)
                  then (case one_stat L arr s of Inl e \<Rightarrow> None | Inr v \<Rightarrow> Some v)
                  else out s))"
      using Inr by (intro all_cong1) auto
    with Inr show ?thesis
      by (simp add: Cons.IH)
  qed
qed

text \<open>
  The fallback does what the documentation of \<open>compute_stats\<close> says: a requested name
  outside \<open>VALID_STATS\<close> is mapped to not-a-number, and it changes nothing for the other
  names. The computation returns with the unrecognised names exactly when it returns
  without them, and the recognised names get the same values.
\<close>

theorem unrecognised_stat_is_nan_in_fallback:
  assumes "\<not> has_exact L"
  shows "(\<forall>m. compute_stats L tif g names band = Inr m \<longrightarrow>
            (\<forall>s\<in>set names. s \<notin> set VALID_STATS \<longrightarrow> m s = Some NaN))
       \<and> ((\<exists>m. compute_stats L tif g names band = Inr m) \<longleftrightarrow>
          (\<exists>m'. compute_stats L tif g (filter (\<lambda>s. s \<in> set VALID_STATS) names) band = Inr m'))
       \<and> (\<forall>m m'. compute_stats L tif g names band = Inr m \<and>
            compute_stats L tif g (filter (\<lambda>s. s \<in> set VALID_STATS) names) band = Inr m' \<longrightarrow>
            (\<forall>s\<in>set VALID_STATS. m s = m' s))"
proof (cases "masked_pixels L tif g band")
  case (Inl e)
  with assms show ?thesis by (simp add: compute_stats_def)
next
  case (Inr arr)
  let ?known = "filter (\<lambda>s. s \<in> set VALID_STATS) names"
  have full: "compute_stats L tif g names band = stats_loop L arr Map.empty names"
    and part: "compute_stats L tif g ?known band = stats_loop L arr Map.empty ?known"
    using assms Inr by (simp_all add: compute_stats_def)
  have nan: "m s = Some NaN"
    if "stats_loop L arr Map.empty names = Inr m" "s \<in> set names" "s \<notin> set VALID_STATS"
    for m s
    using that by (simp add: stats_loop_Inr_iff one_stat_unrecognised)
  have ok: "(\<forall>s\<in>set names. \<exists>v. one_stat L arr s = Inr v)
              \<longleftrightarrow> (\<forall>s\<in>set ?known. \<exists>v. one_stat L arr s = Inr v)"
    using one_stat_unrecognised by fastforce
  have ex: "(\<exists>m. stats_loop L arr Map.empty ns = Inr m)
              \<longleftrightarrow> (\<forall>s\<in>set ns. \<exists>v. one_stat L arr s = Inr v)" for ns
  proof
    assume "\<exists>m. stats_loop L arr Map.empty ns = Inr m"
    then show "\<forall>s\<in>set ns. \<exists>v. one_stat L arr s = Inr v"
      by (auto simp: stats_loop_Inr_iff)
  next
    assume all: "\<forall>s\<in>set ns. \<exists>v. one_stat L arr s = Inr v"
    let ?m = "\<lambda>s. if s \<in> set ns
                   then (case one_stat L arr s of Inl e \<Rightarrow> None | Inr v \<Rightarrow> Some v)
                   else None"
    have "stats_loop L arr Map.empty ns = Inr ?m"
      unfolding stats_loop_Inr_iff using all by simp
    then show "\<exists>m. stats_loop L arr Map.empty ns = Inr m"
      by blast
  qed
  have same: "m s = m' s"
    if "stats_loop L arr Map.empty names = Inr m" "stats_loop L arr Map.empty ?known = Inr m'"
      "s \<in> set VALID_STATS" for m m' s
    using that by (simp add: stats_loop_Inr_iff)
  have c1: "\<forall>m. compute_stats L tif g names band = Inr m \<longrightarrow>
            (\<forall>s\<in>set names. s \<notin> set VALID_STATS \<longrightarrow> m s = Some NaN)"
    unfolding full using nan by blast
  have c2: "(\<exists>m. compute_stats L tif g names band = Inr m) \<longleftrightarrow>
          (\<exists>m'. compute_stats L tif g ?known band = Inr m')"
    unfolding full part ex by (rule ok)
  have c3: "\<forall>m m'. compute_stats L tif g names band = Inr m \<and>
            compute_stats L tif g ?known band = Inr m' \<longrightarrow>
            (\<forall>s\<in>set VALID_STATS. m s = m' s)"
    unfolding full part using same by blast
  from c1 c2 c3 show ?thesis
    by (intro conjI)
qed

theorem unrecognised_stat_is_nan_in_fallback_witness:
  "\<not> has_exact toy_library
   \<and> (\<exists>m. compute_stats toy_library ''/tmp/r1.tif'' square_with_hole [''sum'', ''bogus''] 1 = Inr m
          \<and> m ''bogus'' = Some NaN \<and> m ''sum'' = Some (Fin 20))"
proof -
  have fallback: "\<not> has_exact toy_library"
    by (simp add: toy_library_def)
  have known: "filter (\<lambda>s. s \<in> set VALID_STATS) [''sum'', ''bogus''] = [''sum'']"
    by (simp add: VALID_STATS_def)
  have ring: "4 \<le> length (exterior square_with_hole)"
    by (simp add: square_with_hole_def)
  note inst = unrecognised_stat_is_nan_in_fallback
                [OF fallback, of "''/tmp/r1.tif''" square_with_hole "[''sum'', ''bogus'']" 1,
                 unfolded known toy_compute_stats [OF ring]]
  from inst obtain m where
    m: "compute_stats toy_library ''/tmp/r1.tif'' square_with_hole [''sum'', ''bogus''] 1 = Inr m"
    by blast
  have "''bogus'' \<notin> set VALID_STATS" "''sum'' \<in> set VALID_STATS"
    by (simp_all add: VALID_STATS_def)
  with inst m have "m ''bogus'' = Some NaN" "m ''sum'' = [''sum'' \<mapsto> Fin 20] ''sum''"
    by auto
  with fallback m show ?thesis by auto
qed

text \<open>
  C6. The exact path misses what the fallback does: there the names go to exactextract
  as they are and the values are read back from its answer, with no branch of the engine
  for a name outside the vocabulary. With exactextract installed and raising for a name
  it does not know, the statistic \<open>sum\<close> is computed when asked alone, and the whole
  computation fails when \<open>bogus\<close> is asked with it.
\<close>

theorem unrecognised_stat_fails_exact_path:
  "compute_stats strict_library ''/tmp/r1.tif'' square_with_hole [''sum''] 1
     = Inr [''sum'' \<mapsto> Fin 0]
   \<and> compute_stats strict_library ''/tmp/r1.tif'' square_with_hole [''sum'', ''bogus''] 1
     = Inl (LibraryError ''Unsupported stat'')"
  by (simp add: compute_stats_def strict_library_def VALID_STATS_def)

section \<open>Closed rings\<close>

text \<open>
  The two rings the engine closes itself are closed for every library: the ring of a
  circle by \<open>coords.append(coords[0])\<close>, the bounds ring of a loaded raster by
  \<open>ring.append(ring[0])\<close>. The rings of an annulus and of a rectangle are made inside
  shapely (\<open>difference\<close>, \<open>box\<close>) and are whatever it returns.
\<close>

lemma geodesic_circle_closed:
  assumes "geodesic_circle L lon lat radius_m n = Inr p"
  shows "ring_closed (exterior p) \<and> interiors p = []"
proof -
  from geodesic_circle_Inr [OF assms] obtain c0 rest where
    "p = \<lparr>exterior = (c0 # rest) @ [c0], interiors = []\<rparr>"
    by blast
  then show ?thesis
    by (simp add: ring_closed_def)
qed

lemma bounds_ring_closed:
  assumes "bounds_ring corners = Inr ring"
  shows "ring_closed ring"
  using assms
  by (cases corners) (auto simp: bounds_ring_def ring_closed_def)

lemma raster_info_closed:
  assumes "raster_info L file_path ds = Inr info"
  shows "ring_closed (bounds_polygon info)"
proof -
  from assms obtain corners ring where
    "bounds_ring corners = Inr ring" "bounds_polygon info = ring"
    by (auto simp: raster_info_def and_then_Inr_iff)
  then show ?thesis
    using bounds_ring_closed by simp
qed

lemma load_closed:
  assumes "load L rasters raster_id file_path = Inr (rasters', rid, info)"
  shows "ring_closed (bounds_polygon info)"
proof -
  from assms obtain ds where "raster_info L file_path ds = Inr info"
    by (auto simp: load_def and_then_Inr_iff)
  then show ?thesis by (rule raster_info_closed)
qed

lemma rect_from_center_is_box:
  assumes "rect_from_center L lon lat half_w_m half_h_m = Inr rect"
  shows "\<exists>minx miny maxx maxy. rect = shp_box L minx miny maxx maxy"
  using assms
  by (auto simp: rect_from_center_def split: sum.splits prod.splits)

section \<open>Request parameters\<close>








lemma stats_of_request_not_iterable:
  assumes "data ''stats'' = Some j" and "j = JNull \<or> (\<exists>b. j = JBool b) \<or> (\<exists>n. j = JNum n)"
  shows "parse_query_params L rasters data = Inl (ValueError ''Missing raster_id'')
       \<or> parse_query_params L rasters data = Inl (ValueError ''Raster not found. Upload first.'')
       \<or> parse_query_params L rasters data = Inl TypeError"
proof -
  from assms have "stats_of_request data = Inl TypeError"
    by (auto simp: stats_of_request_def and_then_def)
  then show ?thesis
    by (cases "data ''raster_id''")
       (auto simp: parse_query_params_def and_then_def elim: store_get.elims
             split: sum.splits option.splits)
qed

















end
